theory Spec2Isabelle
  imports Complex_Main "HOL-Library.AList"
begin

section \<open>Values of the job and of the response\<close>

text \<open>
  A Python \<open>str\<close> is the list of its code points, so that every text a JSON document
  can hold is a value (lone surrogates included). \<open>uni\<close> gives the text of a literal of
  the source.
\<close>

type_synonym pystr = "nat list"

definition uni :: "string \<Rightarrow> pystr" where
  "uni s = map of_char s"

text \<open>
  Both handlers receive a job decoded from JSON and return a mapping that is encoded back
  to JSON. A value is therefore one of the JSON-like Python objects. A \<open>dict\<close> is an
  association list in insertion order, read with \<open>map_of\<close>; its keys are strings, as
  in JSON. Python's unbounded \<open>int\<close> is \<open>int\<close>. A Python \<open>float\<close> is modelled
  by the real number it denotes: the handlers pass floats through and subtract clock
  readings, and rounding is not modelled.
\<close>

datatype pyval =
    PNone
  | PBool bool
  | PInt int
  | PFloat real
  | PStr pystr
  | PList "pyval list"
  | PDict "(pystr \<times> pyval) list"

text \<open>
  An exception caught by \<open>except Exception as e\<close>: its class name and the text
  \<open>str(e)\<close>. Signals that do not derive from \<open>Exception\<close> (\<open>KeyboardInterrupt\<close>,
  \<open>SystemExit\<close>) are outside the model.
\<close>

datatype exn = Exn (exn_class: pystr) (exn_str: pystr)

fun type_name :: "pyval \<Rightarrow> string" where
  "type_name PNone = ''NoneType''"
| "type_name (PBool _) = ''bool''"
| "type_name (PInt _) = ''int''"
| "type_name (PFloat _) = ''float''"
| "type_name (PStr _) = ''str''"
| "type_name (PList _) = ''list''"
| "type_name (PDict _) = ''dict''"

definition no_attribute :: "pyval \<Rightarrow> string \<Rightarrow> exn" where
  "no_attribute v a =
     Exn (uni ''AttributeError'')
       (uni ([CHR 0x27] @ type_name v @ [CHR 0x27] @ '' object has no attribute ''
         @ [CHR 0x27] @ a @ [CHR 0x27]))"

definition type_error :: "pyval \<Rightarrow> string \<Rightarrow> exn" where
  "type_error v what =
     Exn (uni ''TypeError'')
       (uni ([CHR 0x27] @ type_name v @ [CHR 0x27] @ '' object is not '' @ what))"

text \<open>Sequencing of steps that may raise: the first exception ends the block.\<close>

definition ebind :: "exn + 'a \<Rightarrow> ('a \<Rightarrow> exn + 'b) \<Rightarrow> exn + 'b" where
  "ebind r f = (case r of Inl e \<Rightarrow> Inl e | Inr x \<Rightarrow> f x)"

text \<open>\<open>v.get(key, default)\<close>: defined on a \<open>dict\<close> only.\<close>

fun py_get :: "pyval \<Rightarrow> pystr \<Rightarrow> pyval \<Rightarrow> exn + pyval" where
  "py_get (PDict kvs) k d = Inr (case map_of kvs k of None \<Rightarrow> d | Some v \<Rightarrow> v)"
| "py_get v k d = Inl (no_attribute v ''get'')"

text \<open>The truth value that \<open>not v\<close> negates.\<close>

fun py_truthy :: "pyval \<Rightarrow> bool" where
  "py_truthy PNone = False"
| "py_truthy (PBool b) = b"
| "py_truthy (PInt i) = (i \<noteq> 0)"
| "py_truthy (PFloat x) = (x \<noteq> 0)"
| "py_truthy (PStr s) = (s \<noteq> [])"
| "py_truthy (PList xs) = (xs \<noteq> [])"
| "py_truthy (PDict kvs) = (kvs \<noteq> [])"

text \<open>
  \<open>v[-1]\<close>: the last element of a list or the last character of a string (an
  \<open>IndexError\<close> when empty), a \<open>KeyError\<close> on a dict (whose keys are strings), a
  \<open>TypeError\<close> otherwise.
\<close>

fun py_last :: "pyval \<Rightarrow> exn + pyval" where
  "py_last (PList xs) =
     (if xs = [] then Inl (Exn (uni ''IndexError'') (uni ''list index out of range''))
      else Inr (last xs))"
| "py_last (PStr s) =
     (if s = [] then Inl (Exn (uni ''IndexError'') (uni ''string index out of range''))
      else Inr (PStr [last s]))"
| "py_last (PDict kvs) = Inl (Exn (uni ''KeyError'') (uni ''-1''))"
| "py_last v = Inl (type_error v ''subscriptable'')"

text \<open>
  The elements a \<open>for\<close> loop visits: those of a list, the characters of a string, the
  keys of a dict; the other values are not iterable.
\<close>

fun py_iter :: "pyval \<Rightarrow> exn + pyval list" where
  "py_iter (PList xs) = Inr xs"
| "py_iter (PStr s) = Inr (map (\<lambda>c. PStr [c]) s)"
| "py_iter (PDict kvs) = Inr (map (\<lambda>kv. PStr (fst kv)) kvs)"
| "py_iter v = Inl (type_error v ''iterable'')"

subsection \<open>String operations\<close>

text \<open>
  The code points for which \<open>str.isspace\<close> holds: the separators of \<open>split()\<close> and
  the characters that \<open>strip()\<close> removes.
\<close>

definition py_isspace :: "nat \<Rightarrow> bool" where
  "py_isspace c \<longleftrightarrow>
     c \<in> set [0x09, 0x0A, 0x0B, 0x0C, 0x0D, 0x1C, 0x1D, 0x1E, 0x1F, 0x20, 0x85, 0xA0,
              0x1680, 0x2028, 0x2029, 0x202F, 0x205F, 0x3000]
     \<or> (0x2000 \<le> c \<and> c \<le> 0x200A)"

text \<open>
  \<open>s.split()\<close>: the maximal runs of characters that are not whitespace. The second
  argument is the run being read, reversed.
\<close>

fun split_ws :: "pystr \<Rightarrow> pystr \<Rightarrow> pystr list" where
  "split_ws [] w = (if w = [] then [] else [rev w])"
| "split_ws (c # cs) w =
     (if py_isspace c then (if w = [] then split_ws cs [] else rev w # split_ws cs [])
      else split_ws cs (c # w))"

definition py_split :: "pystr \<Rightarrow> pystr list" where
  "py_split s = split_ws s []"

text \<open>\<open>s.strip()\<close>: whitespace removed at both ends.\<close>

definition py_strip :: "pystr \<Rightarrow> pystr" where
  "py_strip s = rev (dropWhile py_isspace (rev (dropWhile py_isspace s)))"

text \<open>
  \<open>s.split(sep)[0]\<close> for a non-empty \<open>sep\<close>: the part of \<open>s\<close> before the first
  occurrence of \<open>sep\<close>, all of \<open>s\<close> when there is none.
\<close>

fun before_sep :: "pystr \<Rightarrow> pystr \<Rightarrow> pystr" where
  "before_sep sep [] = []"
| "before_sep sep (c # cs) =
     (if take (length sep) (c # cs) = sep then [] else c # before_sep sep cs)"

text \<open>\<open>sep in s\<close>.\<close>

fun contains :: "pystr \<Rightarrow> pystr \<Rightarrow> bool" where
  "contains sep [] = (sep = [])"
| "contains sep (c # cs) = (take (length sep) (c # cs) = sep \<or> contains sep cs)"

text \<open>
  A replacement field \<open>{v}\<close> of an f-string: a \<open>str\<close> is inserted as it is, any other
  value through the text the runtime gives it, a parameter.
\<close>

definition py_format :: "(pyval \<Rightarrow> pystr) \<Rightarrow> pyval \<Rightarrow> pystr" where
  "py_format fmt v = (case v of PStr s \<Rightarrow> s | _ \<Rightarrow> fmt v)"

section \<open>The echo handler (runpod-simple.py)\<close>

text \<open>
  Lines 16 to 32, from the content of the last message to the response, and the body of
  the \<open>try\<close> block. The f-string of line 16 raises for no value, and for a content
  that is not a \<open>str\<close> the first \<open>split\<close> of line 28 raises before anything is
  returned, so the formatted text is observable for a \<open>str\<close> only. The file has no
  \<open>print\<close>.
\<close>

definition echo_response :: "pyval \<Rightarrow> exn + pyval" where
  "echo_response last_message =
     (case last_message of
        PStr s \<Rightarrow>
          (let response = uni ''Echo: '' @ s in
           Inr (PDict
             [(uni ''choices'',
                 PList [PDict [(uni ''message'',
                   PDict [(uni ''role'', PStr (uni ''assistant'')),
                          (uni ''content'', PStr response)])]]),
              (uni ''usage'',
                 PDict
                   [(uni ''prompt_tokens'', PInt (int (length (py_split s)))),
                    (uni ''completion_tokens'', PInt (int (length (py_split response)))),
                    (uni ''total_tokens'',
                       PInt (int (length (py_split s))
                             + int (length (py_split response))))])]))
      | _ \<Rightarrow> Inl (no_attribute last_message ''split''))"

definition simple_body :: "pyval \<Rightarrow> exn + pyval" where
  "simple_body job =
     ebind (py_get job (uni ''input'') (PDict [])) (\<lambda>input_data.
     ebind (py_get input_data (uni ''messages'') (PList [])) (\<lambda>messages.
       if \<not> py_truthy messages then
         Inr (PDict [(uni ''error'', PStr (uni ''No messages provided''))])
       else
         ebind (py_last messages) (\<lambda>last_turn.
         ebind (py_get last_turn (uni ''content'') (PStr [])) (\<lambda>last_message.
           echo_response last_message))))"

text \<open>
  The \<open>except\<close> clause turns any exception of the body into an error mapping; it calls
  nothing that can raise.
\<close>

definition simple_handler :: "pyval \<Rightarrow> pyval" where
  "simple_handler job =
     (case simple_body job of
        Inr r \<Rightarrow> r
      | Inl e \<Rightarrow> PDict [(uni ''error'', PStr (exn_str e))])"

section \<open>The model handler (runpod-handler.py)\<close>

text \<open>
  The three module globals of lines 13 to 15. The model and the tokenizer are objects of
  the model-loading library, of types \<open>'m\<close> and \<open>'t\<close>; \<open>None\<close> before loading.
\<close>

record ('m, 't) globals =
  model :: "'m option"
  tokenizer :: "'t option"
  model_loaded :: bool

definition initial_globals :: "('m, 't) globals" where
  "initial_globals = \<lparr>model = None, tokenizer = None, model_loaded = False\<rparr>"

text \<open>
  The lines that the handler prints, by the place of the \<open>print\<close>: lines 24, 45, 48,
  90, 101, 132 and 156. A line carries the text that the request or the exception puts
  into it; the elapsed times of lines 45 and 132 come from the clock.
\<close>

datatype log_line =
    Loading
  | Loaded
  | LoadError pystr
  | PromptLine pystr
  | Generating
  | Generated
  | HandlerError pystr

text \<open>
  What the library and the runtime do during one invocation, a parameter of the handler:
  each call either raises or returns.
  \<^item> \<open>tokenizer_from_pretrained\<close>, \<open>model_from_pretrained\<close>: the two loader calls;
  \<^item> \<open>tokenizer_call t prompt\<close>: \<open>tokenizer(prompt, ...)\<close>, the row of token ids
    \<open>input_ids\<close>;
  \<^item> \<open>to_device m ids\<close>: \<open>.to(model.device)\<close>;
  \<^item> \<open>model_generate m t ids max_tokens temperature top_p\<close>: the row \<open>outputs[0]\<close> of
    \<open>model.generate(...)\<close>;
  \<^item> \<open>tokenizer_decode t ids\<close>: \<open>tokenizer.decode(ids, skip_special_tokens=True)\<close>;
  \<^item> \<open>print_line l\<close>: the write of a line to the standard output, \<open>None\<close> when it
    returns and the exception when it raises (a text that the stream cannot encode, a
    closed stream);
  \<^item> \<open>fmt\<close>: the text of a value that is not a \<open>str\<close> in an f-string;
  \<^item> the readings of \<open>time.time()\<close> at lines 72, 102 and 116, and the last reading of
    the invocation (line 130 or line 159).
\<close>

record ('m, 't) env =
  tokenizer_from_pretrained :: "exn + 't"
  model_from_pretrained :: "exn + 'm"
  tokenizer_call :: "'t \<Rightarrow> pystr \<Rightarrow> exn + int list"
  to_device :: "'m \<Rightarrow> int list \<Rightarrow> exn + int list"
  model_generate :: "'m \<Rightarrow> 't \<Rightarrow> int list \<Rightarrow> pyval \<Rightarrow> pyval \<Rightarrow> pyval \<Rightarrow> exn + int list"
  tokenizer_decode :: "'t \<Rightarrow> int list \<Rightarrow> exn + pystr"
  print_line :: "log_line \<Rightarrow> exn option"
  fmt :: "pyval \<Rightarrow> pystr"
  t_start :: real
  t_gen_start :: real
  t_gen_end :: real
  t_end :: real

text \<open>\<open>print(...)\<close> as a step of a block.\<close>

definition py_print :: "('m, 't) env \<Rightarrow> log_line \<Rightarrow> exn + unit" where
  "py_print env l = (case print_line env l of None \<Rightarrow> Inr () | Some e \<Rightarrow> Inl e)"

text \<open>
  The \<open>except\<close> clause of \<open>load_model\<close> (lines 47 to 49): it prints the error and
  raises it again; an exception of the \<open>print\<close> is raised instead.
\<close>

definition load_failed :: "('m, 't) env \<Rightarrow> exn \<Rightarrow> exn" where
  "load_failed env e = (case print_line env (LoadError (exn_str e)) of None \<Rightarrow> e | Some e' \<Rightarrow> e')"

text \<open>
  \<open>load_model\<close>: nothing when the flag is set. Otherwise the \<open>print\<close> of line 24,
  outside the \<open>try\<close>; then the tokenizer, the model, the flag and the \<open>print\<close> of
  line 45. An exception of the second loader leaves the tokenizer assigned, an exception
  of line 45 leaves all three globals assigned.
\<close>

definition load_model :: "('m, 't) env \<Rightarrow> ('m, 't) globals \<Rightarrow> (exn + unit) \<times> ('m, 't) globals" where
  "load_model env g =
     (if model_loaded g then (Inr (), g)
      else
        case print_line env Loading of
          Some e \<Rightarrow> (Inl e, g)
        | None \<Rightarrow>
            (case tokenizer_from_pretrained env of
               Inl e \<Rightarrow> (Inl (load_failed env e), g)
             | Inr t \<Rightarrow>
                 (let g1 = g\<lparr>tokenizer := Some t\<rparr> in
                  case model_from_pretrained env of
                    Inl e \<Rightarrow> (Inl (load_failed env e), g1)
                  | Inr m \<Rightarrow>
                      (let g2 = g1\<lparr>model := Some m, model_loaded := True\<rparr> in
                       case print_line env Loaded of
                         Some e \<Rightarrow> (Inl (load_failed env e), g2)
                       | None \<Rightarrow> (Inr (), g2)))))"

text \<open>The loop of \<open>format_messages\<close>; the last argument is \<open>prompt\<close>.\<close>

fun format_loop :: "(pyval \<Rightarrow> pystr) \<Rightarrow> pyval list \<Rightarrow> pystr \<Rightarrow> exn + pystr" where
  "format_loop f [] prompt = Inr prompt"
| "format_loop f (message # rest) prompt =
     ebind (py_get message (uni ''role'') (PStr [])) (\<lambda>role.
     ebind (py_get message (uni ''content'') (PStr [])) (\<lambda>content.
       if role = PStr (uni ''system'') then
         format_loop f rest
           (prompt @ uni ''<|system|>\<newline>'' @ py_format f content @ uni ''<|end|>\<newline>'')
       else if role = PStr (uni ''user'') then
         format_loop f rest
           (prompt @ uni ''<|user|>\<newline>'' @ py_format f content @ uni ''<|end|>\<newline>'')
       else if role = PStr (uni ''assistant'') then
         format_loop f rest
           (prompt @ uni ''<|assistant|>\<newline>'' @ py_format f content @ uni ''<|end|>\<newline>'')
       else format_loop f rest prompt))"

definition format_messages :: "(pyval \<Rightarrow> pystr) \<Rightarrow> pyval \<Rightarrow> exn + pystr" where
  "format_messages f messages =
     ebind (py_iter messages) (\<lambda>turns.
     ebind (format_loop f turns []) (\<lambda>prompt.
       Inr (prompt @ uni ''<|assistant|>\<newline>'')))"

text \<open>A global that is still \<open>None\<close> can be neither called nor asked for an attribute.\<close>

definition the_tokenizer :: "('m, 't) globals \<Rightarrow> exn + 't" where
  "the_tokenizer g =
     (case tokenizer g of
        None \<Rightarrow> Inl (type_error PNone ''callable'')
      | Some t \<Rightarrow> Inr t)"

definition the_model :: "('m, 't) globals \<Rightarrow> string \<Rightarrow> exn + 'm" where
  "the_model g a = (case model g of None \<Rightarrow> Inl (no_attribute PNone a) | Some m \<Rightarrow> Inr m)"

text \<open>
  Lines 90 to 152: from the prompt and the three generation parameters to the response,
  with the three \<open>print\<close> calls of the block.
\<close>

definition generate_reply ::
  "('m, 't) env \<Rightarrow> ('m, 't) globals \<Rightarrow> pystr \<Rightarrow> pyval \<Rightarrow> pyval \<Rightarrow> pyval \<Rightarrow> exn + pyval" where
  "generate_reply env g prompt max_tokens temperature top_p =
     ebind (py_print env (PromptLine (take 200 prompt))) (\<lambda>u.
     ebind (the_tokenizer g) (\<lambda>t.
     ebind (tokenizer_call env t prompt) (\<lambda>encoded.
     ebind (the_model g ''device'') (\<lambda>m.
     ebind (to_device env m encoded) (\<lambda>input_ids.
     ebind (py_print env Generating) (\<lambda>u.
     ebind (model_generate env m t input_ids max_tokens temperature top_p) (\<lambda>output.
       let gen_time = t_gen_end env - t_gen_start env;
           response_tokens = drop (length input_ids) output
       in
     ebind (tokenizer_decode env t response_tokens) (\<lambda>decoded.
       let response = (if contains (uni ''<|end|>'') decoded
                       then before_sep (uni ''<|end|>'') decoded else decoded);
           prompt_tokens = int (length input_ids);
           completion_tokens = int (length response_tokens);
           total_tokens = prompt_tokens + completion_tokens;
           total_time = t_end env - t_start env
       in
     ebind (py_print env Generated) (\<lambda>u.
       Inr (PDict
         [(uni ''choices'',
             PList [PDict
               [(uni ''message'',
                   PDict [(uni ''role'', PStr (uni ''assistant'')),
                          (uni ''content'', PStr (py_strip response))]),
                (uni ''finish_reason'', PStr (uni ''stop''))]]),
          (uni ''usage'',
             PDict [(uni ''prompt_tokens'', PInt prompt_tokens),
                    (uni ''completion_tokens'', PInt completion_tokens),
                    (uni ''total_tokens'', PInt total_tokens)]),
          (uni ''model'', PStr (uni ''deepseek-r1-distill-llama-8b'')),
          (uni ''execution_time'', PFloat total_time),
          (uni ''generation_time'', PFloat gen_time)]))))))))))"

text \<open>Lines 79 to 152: the \<open>try\<close> block after \<open>load_model()\<close>.\<close>

definition respond :: "('m, 't) env \<Rightarrow> ('m, 't) globals \<Rightarrow> pyval \<Rightarrow> exn + pyval" where
  "respond env g job =
     ebind (py_get job (uni ''input'') (PDict [])) (\<lambda>input_data.
     ebind (py_get input_data (uni ''messages'') (PList [])) (\<lambda>messages.
     ebind (py_get input_data (uni ''max_tokens'') (PInt 2048)) (\<lambda>max_tokens.
     ebind (py_get input_data (uni ''temperature'') (PFloat 0.7)) (\<lambda>temperature.
     ebind (py_get input_data (uni ''top_p'') (PFloat 0.9)) (\<lambda>top_p.
       if \<not> py_truthy messages then
         Inr (PDict [(uni ''error'', PStr (uni ''No messages provided''))])
       else
         ebind (format_messages (fmt env) messages) (\<lambda>prompt.
           generate_reply env g prompt max_tokens temperature top_p))))))"

text \<open>The whole \<open>try\<close> block: the result or the exception, and the globals afterwards.\<close>

definition handler_body ::
  "('m, 't) env \<Rightarrow> ('m, 't) globals \<Rightarrow> pyval \<Rightarrow> (exn + pyval) \<times> ('m, 't) globals" where
  "handler_body env g job =
     (case load_model env g of
        (Inl e, g') \<Rightarrow> (Inl e, g')
      | (Inr u, g') \<Rightarrow> (respond env g' job, g'))"

text \<open>
  The handler with its \<open>except\<close> clause (lines 154 to 160): the clause prints the
  error and returns the error mapping. Nothing encloses that \<open>print\<close>, so an exception
  of it is raised to the caller: \<open>Inl\<close>.
\<close>

definition handler ::
  "('m, 't) env \<Rightarrow> ('m, 't) globals \<Rightarrow> pyval \<Rightarrow> (exn + pyval) \<times> ('m, 't) globals" where
  "handler env g job =
     (case handler_body env g job of
        (Inr r, g') \<Rightarrow> (Inr r, g')
      | (Inl e, g') \<Rightarrow>
          (case print_line env (HandlerError (exn_str e)) of
             Some e' \<Rightarrow> (Inl e', g')
           | None \<Rightarrow>
               (Inr (PDict [(uni ''error'', PStr (exn_str e)),
                            (uni ''execution_time'', PFloat (t_end env - t_start env))]), g')))"

section \<open>The handlers on the objects of the job\<close>

text \<open>
  A Python \<open>dict\<close> or \<open>list\<close> is an object that can be changed in place. The job that
  the platform passes is the tree of objects that the JSON decoder builds, in which no
  object occurs twice: an object of the job is named by the path to it from the job, a key
  of a \<open>dict\<close> or an index of a \<open>list\<close> at each step, and the state of all of them is
  the tree itself. A write into an object would replace the value at its path.
\<close>

datatype step = Key pystr | Index nat

fun child :: "pyval \<Rightarrow> step \<Rightarrow> pyval option" where
  "child (PDict kvs) (Key k) = map_of kvs k"
| "child (PList xs) (Index n) = (if n < length xs then Some (xs ! n) else None)"
| "child v st = None"

fun reach :: "pyval \<Rightarrow> step list \<Rightarrow> pyval option" where
  "reach v [] = Some v"
| "reach v (st # p) = Option.bind (child v st) (\<lambda>c. reach c p)"

text \<open>
  What a variable of the handler holds: an object of the job, by its path, or a value
  that is no object of the job (a default of \<open>get\<close>, a character, a key).
\<close>

datatype ref = Obj "step list" | Val pyval

text \<open>The value of a reference in the state \<open>J\<close> of the job.\<close>

definition deref :: "pyval \<Rightarrow> ref \<Rightarrow> pyval" where
  "deref J r =
     (case r of
        Obj p \<Rightarrow> (case reach J p of Some v \<Rightarrow> v | None \<Rightarrow> PNone)
      | Val v \<Rightarrow> v)"

text \<open>The element \<open>v\<close> found at the step \<open>st\<close> of the object \<open>r\<close>.\<close>

fun sub :: "ref \<Rightarrow> step \<Rightarrow> pyval \<Rightarrow> ref" where
  "sub (Obj p) st v = Obj (p @ [st])"
| "sub (Val w) st v = Val v"

text \<open>
  A step of a handler takes the state of the job and gives its outcome and the state
  afterwards.
\<close>

type_synonym 'a run = "pyval \<Rightarrow> (exn + 'a) \<times> pyval"

definition rbind :: "'a run \<Rightarrow> ('a \<Rightarrow> 'b run) \<Rightarrow> 'b run" where
  "rbind m f J = (case m J of (Inl e, J') \<Rightarrow> (Inl e, J') | (Inr x, J') \<Rightarrow> f x J')"

text \<open>A step that does not touch the job: a library call, a \<open>print\<close>, a new mapping.\<close>

definition aside :: "exn + 'a \<Rightarrow> 'a run" where
  "aside r J = (r, J)"

text \<open>
  The operations that the handlers apply to the job and to its parts: \<open>r.get(k, d)\<close>,
  \<open>not r\<close>, \<open>r[-1]\<close>, \<open>for x in r\<close>, and the use of \<open>r\<close> as a value (a comparison
  with a literal, a replacement field, an argument of the library). Each reads the
  object.
\<close>

definition get_run :: "ref \<Rightarrow> pystr \<Rightarrow> pyval \<Rightarrow> ref run" where
  "get_run r k d J =
     (case deref J r of
        PDict kvs \<Rightarrow>
          (case map_of kvs k of None \<Rightarrow> Inr (Val d) | Some v \<Rightarrow> Inr (sub r (Key k) v))
      | v \<Rightarrow> Inl (no_attribute v ''get''), J)"

definition truthy_run :: "ref \<Rightarrow> bool run" where
  "truthy_run r J = (Inr (py_truthy (deref J r)), J)"

definition last_run :: "ref \<Rightarrow> ref run" where
  "last_run r J =
     (case deref J r of
        PList xs \<Rightarrow>
          (if xs = [] then Inl (Exn (uni ''IndexError'') (uni ''list index out of range''))
           else Inr (sub r (Index (length xs - 1)) (last xs)))
      | PStr s \<Rightarrow>
          (if s = [] then Inl (Exn (uni ''IndexError'') (uni ''string index out of range''))
           else Inr (Val (PStr [last s])))
      | PDict kvs \<Rightarrow> Inl (Exn (uni ''KeyError'') (uni ''-1''))
      | v \<Rightarrow> Inl (type_error v ''subscriptable''), J)"

definition iter_run :: "ref \<Rightarrow> ref list run" where
  "iter_run r J =
     (case deref J r of
        PList xs \<Rightarrow> Inr (map (\<lambda>n. sub r (Index n) (xs ! n)) [0..<length xs])
      | PStr s \<Rightarrow> Inr (map (\<lambda>c. Val (PStr [c])) s)
      | PDict kvs \<Rightarrow> Inr (map (\<lambda>kv. Val (PStr (fst kv))) kvs)
      | v \<Rightarrow> Inl (type_error v ''iterable''), J)"

definition value_run :: "ref \<Rightarrow> pyval run" where
  "value_run r J = (Inr (deref J r), J)"

text \<open>The echo handler, statement by statement; the job is the object at the empty path.\<close>

definition simple_body_run :: "pyval run" where
  "simple_body_run =
     rbind (get_run (Obj []) (uni ''input'') (PDict [])) (\<lambda>input_data.
     rbind (get_run input_data (uni ''messages'') (PList [])) (\<lambda>messages.
     rbind (truthy_run messages) (\<lambda>some.
       if \<not> some then
         aside (Inr (PDict [(uni ''error'', PStr (uni ''No messages provided''))]))
       else
         rbind (last_run messages) (\<lambda>last_turn.
         rbind (get_run last_turn (uni ''content'') (PStr [])) (\<lambda>last_message.
         rbind (value_run last_message) (\<lambda>v.
           aside (echo_response v)))))))"

definition simple_handler_run :: "pyval \<Rightarrow> pyval \<times> pyval" where
  "simple_handler_run J =
     (case simple_body_run J of
        (Inr r, J') \<Rightarrow> (r, J')
      | (Inl e, J') \<Rightarrow> (PDict [(uni ''error'', PStr (exn_str e))], J'))"

text \<open>\<open>format_messages\<close> on the objects of the list.\<close>

fun format_loop_run :: "(pyval \<Rightarrow> pystr) \<Rightarrow> ref list \<Rightarrow> pystr \<Rightarrow> pystr run" where
  "format_loop_run f [] prompt = aside (Inr prompt)"
| "format_loop_run f (message # rest) prompt =
     rbind (get_run message (uni ''role'') (PStr [])) (\<lambda>role_ref.
     rbind (get_run message (uni ''content'') (PStr [])) (\<lambda>content_ref.
     rbind (value_run role_ref) (\<lambda>role.
     rbind (value_run content_ref) (\<lambda>content.
       if role = PStr (uni ''system'') then
         format_loop_run f rest
           (prompt @ uni ''<|system|>\<newline>'' @ py_format f content @ uni ''<|end|>\<newline>'')
       else if role = PStr (uni ''user'') then
         format_loop_run f rest
           (prompt @ uni ''<|user|>\<newline>'' @ py_format f content @ uni ''<|end|>\<newline>'')
       else if role = PStr (uni ''assistant'') then
         format_loop_run f rest
           (prompt @ uni ''<|assistant|>\<newline>'' @ py_format f content @ uni ''<|end|>\<newline>'')
       else format_loop_run f rest prompt))))"

definition format_messages_run :: "(pyval \<Rightarrow> pystr) \<Rightarrow> ref \<Rightarrow> pystr run" where
  "format_messages_run f messages =
     rbind (iter_run messages) (\<lambda>turns.
     rbind (format_loop_run f turns []) (\<lambda>prompt.
       aside (Inr (prompt @ uni ''<|assistant|>\<newline>''))))"

text \<open>
  The model handler, statement by statement. The library is given the prompt, a new
  string, and the values of the three parameters; it is taken not to write into them.
  The state of the process around a call is the globals and the job.
\<close>

definition respond_run :: "('m, 't) env \<Rightarrow> ('m, 't) globals \<Rightarrow> pyval run" where
  "respond_run env g =
     rbind (get_run (Obj []) (uni ''input'') (PDict [])) (\<lambda>input_data.
     rbind (get_run input_data (uni ''messages'') (PList [])) (\<lambda>messages.
     rbind (get_run input_data (uni ''max_tokens'') (PInt 2048)) (\<lambda>max_tokens.
     rbind (get_run input_data (uni ''temperature'') (PFloat 0.7)) (\<lambda>temperature.
     rbind (get_run input_data (uni ''top_p'') (PFloat 0.9)) (\<lambda>top_p.
     rbind (truthy_run messages) (\<lambda>some.
       if \<not> some then
         aside (Inr (PDict [(uni ''error'', PStr (uni ''No messages provided''))]))
       else
         rbind (format_messages_run (fmt env) messages) (\<lambda>prompt.
         rbind (value_run max_tokens) (\<lambda>a.
         rbind (value_run temperature) (\<lambda>b.
         rbind (value_run top_p) (\<lambda>c.
           aside (generate_reply env g prompt a b c)))))))))))"

definition handler_run ::
  "('m, 't) env \<Rightarrow> ('m, 't) globals \<times> pyval \<Rightarrow> (exn + pyval) \<times> ('m, 't) globals \<times> pyval" where
  "handler_run env st =
     (case load_model env (fst st) of
        (loaded, g') \<Rightarrow>
          (case (case loaded of
                   Inl e \<Rightarrow> (Inl e, snd st)
                 | Inr u \<Rightarrow> respond_run env g' (snd st)) of
             (Inr r, J') \<Rightarrow> (Inr r, g', J')
           | (Inl e, J') \<Rightarrow>
               (case print_line env (HandlerError (exn_str e)) of
                  Some e' \<Rightarrow> (Inl e', g', J')
                | None \<Rightarrow>
                    (Inr (PDict [(uni ''error'', PStr (exn_str e)),
                                 (uni ''execution_time'', PFloat (t_end env - t_start env))]),
                     g', J'))))"

section \<open>Reading jobs and responses\<close>

text \<open>
  The definitions of this section are not code of the handlers: they name the parts of a
  job and of a response that the properties below speak of.
\<close>

text \<open>The value under a key of a mapping.\<close>

fun field :: "string \<Rightarrow> pyval \<Rightarrow> pyval option" where
  "field k (PDict kvs) = map_of kvs (uni k)"
| "field k v = None"

definition has_key :: "string \<Rightarrow> pyval \<Rightarrow> bool" where
  "has_key k v \<longleftrightarrow> field k v \<noteq> None"

fun is_mapping :: "pyval \<Rightarrow> bool" where
  "is_mapping (PDict kvs) = True"
| "is_mapping v = False"

text \<open>The value of \<open>job["input"]["messages"]\<close>, when the job holds one.\<close>

definition job_messages :: "pyval \<Rightarrow> pyval option" where
  "job_messages job = Option.bind (field ''input'' job) (field ''messages'')"


text \<open>
  The text of a turn: the \<open>str\<close> under \<open>content\<close>, the empty text when the turn is a
  mapping without that key; no text for anything else.
\<close>

definition content_text :: "pyval \<Rightarrow> pystr option" where
  "content_text turn =
     (case turn of
        PDict kvs \<Rightarrow>
          (case map_of kvs (uni ''content'') of
             None \<Rightarrow> Some []
           | Some (PStr s) \<Rightarrow> Some s
           | Some v \<Rightarrow> None)
      | v \<Rightarrow> None)"

text \<open>The content of the message of the only choice of a response.\<close>

definition choice_content :: "pyval \<Rightarrow> pyval option" where
  "choice_content r =
     (case field ''choices'' r of
        Some (PList [choice]) \<Rightarrow> Option.bind (field ''message'' choice) (field ''content'')
      | _ \<Rightarrow> None)"

text \<open>The three counters of the usage mapping of a response.\<close>

definition usage_counts :: "pyval \<Rightarrow> (int \<times> int \<times> int) option" where
  "usage_counts r =
     (case field ''usage'' r of
        Some u \<Rightarrow>
          (case (field ''prompt_tokens'' u, field ''completion_tokens'' u,
                 field ''total_tokens'' u) of
             (Some (PInt p), Some (PInt c), Some (PInt t)) \<Rightarrow> Some (p, c, t)
           | _ \<Rightarrow> None)
      | None \<Rightarrow> None)"

text \<open>
  The shape of a successful response: a mapping with a list \<open>choices\<close> of exactly one
  choice, whose \<open>message\<close> has a \<open>role\<close> and a \<open>content\<close>, and a mapping \<open>usage\<close>
  with the three integer counters.
\<close>

definition chat_shape :: "pyval \<Rightarrow> bool" where
  "chat_shape r \<longleftrightarrow>
     is_mapping r \<and>
     (case field ''choices'' r of
        Some (PList [choice]) \<Rightarrow>
          (case field ''message'' choice of
             Some message \<Rightarrow> has_key ''role'' message \<and> has_key ''content'' message
           | None \<Rightarrow> False)
      | _ \<Rightarrow> False) \<and>
     (case field ''usage'' r of
        Some u \<Rightarrow> is_mapping u \<and> usage_counts r \<noteq> None
      | None \<Rightarrow> False)"



text \<open>The three mappings that the model handler builds.\<close>

definition no_messages_reply :: pyval where
  "no_messages_reply = PDict [(uni ''error'', PStr (uni ''No messages provided''))]"

definition error_reply :: "('m, 't) env \<Rightarrow> exn \<Rightarrow> pyval" where
  "error_reply env e =
     PDict [(uni ''error'', PStr (exn_str e)),
            (uni ''execution_time'', PFloat (t_end env - t_start env))]"

definition completion :: "pystr \<Rightarrow> int \<Rightarrow> int \<Rightarrow> real \<Rightarrow> real \<Rightarrow> pyval" where
  "completion answer p c total_time gen_time =
     PDict
       [(uni ''choices'',
           PList [PDict
             [(uni ''message'',
                 PDict [(uni ''role'', PStr (uni ''assistant'')), (uni ''content'', PStr answer)]),
              (uni ''finish_reason'', PStr (uni ''stop''))]]),
        (uni ''usage'',
           PDict [(uni ''prompt_tokens'', PInt p), (uni ''completion_tokens'', PInt c),
                  (uni ''total_tokens'', PInt (p + c))]),
        (uni ''model'', PStr (uni ''deepseek-r1-distill-llama-8b'')),
        (uni ''execution_time'', PFloat total_time),
        (uni ''generation_time'', PFloat gen_time)]"

text \<open>The response of the echo handler to a last message with the text \<open>s\<close>.\<close>

definition echo_reply :: "pystr \<Rightarrow> pyval" where
  "echo_reply s =
     PDict [(uni ''choices'', PList [PDict [(uni ''message'',
               PDict [(uni ''role'', PStr (uni ''assistant'')),
                      (uni ''content'', PStr (uni ''Echo: '' @ s))])]]),
            (uni ''usage'',
               PDict [(uni ''prompt_tokens'', PInt (int (length (py_split s)))),
                      (uni ''completion_tokens'',
                         PInt (int (length (py_split (uni ''Echo: '' @ s))))),
                      (uni ''total_tokens'',
                         PInt (int (length (py_split s))
                               + int (length (py_split (uni ''Echo: '' @ s)))))])]"

text \<open>
  The globals that a process can reach: the flag is set only after both objects are
  assigned.
\<close>

definition globals_ok :: "('m, 't) globals \<Rightarrow> bool" where
  "globals_ok g \<longleftrightarrow> (model_loaded g \<longrightarrow> model g \<noteq> None \<and> tokenizer g \<noteq> None)"



text \<open>
  The same invocation with other classes for the exceptions of the library: \<open>f\<close> renames
  the class of each, the texts stay.
\<close>

definition reclass_exn :: "(pystr \<Rightarrow> pystr) \<Rightarrow> exn + 'a \<Rightarrow> exn + 'a" where
  "reclass_exn f r = (case r of Inl e \<Rightarrow> Inl (Exn (f (exn_class e)) (exn_str e)) | Inr x \<Rightarrow> Inr x)"

definition reclass :: "(pystr \<Rightarrow> pystr) \<Rightarrow> ('m, 't) env \<Rightarrow> ('m, 't) env" where
  "reclass f env =
     env\<lparr>tokenizer_from_pretrained := reclass_exn f (tokenizer_from_pretrained env),
         model_from_pretrained := reclass_exn f (model_from_pretrained env),
         tokenizer_call := (\<lambda>t prompt. reclass_exn f (tokenizer_call env t prompt)),
         to_device := (\<lambda>m ids. reclass_exn f (to_device env m ids)),
         model_generate := (\<lambda>m t ids a b c. reclass_exn f (model_generate env m t ids a b c)),
         tokenizer_decode := (\<lambda>t ids. reclass_exn f (tokenizer_decode env t ids))\<rparr>"

text \<open>Two outcomes that agree up to the class of the exception.\<close>

definition same_text :: "exn + 'a \<Rightarrow> exn + 'a \<Rightarrow> bool" where
  "same_text r r' =
     (case (r, r') of
        (Inl e, Inl e') \<Rightarrow> exn_str e = exn_str e'
      | (Inr x, Inr y) \<Rightarrow> x = y
      | _ \<Rightarrow> False)"

text \<open>
  The prompt as the description of \<open>format_messages\<close> states it: each turn gives the
  block of its role, or nothing, and the opening of the assistant's answer follows.
\<close>

definition turn_text :: "(pyval \<Rightarrow> pystr) \<Rightarrow> pyval \<Rightarrow> pystr" where
  "turn_text f turn =
     (let content = py_format f (case field ''content'' turn of None \<Rightarrow> PStr [] | Some v \<Rightarrow> v) in
      if field ''role'' turn = Some (PStr (uni ''system'')) then
        uni ''<|system|>\<newline>'' @ content @ uni ''<|end|>\<newline>''
      else if field ''role'' turn = Some (PStr (uni ''user'')) then
        uni ''<|user|>\<newline>'' @ content @ uni ''<|end|>\<newline>''
      else if field ''role'' turn = Some (PStr (uni ''assistant'')) then
        uni ''<|assistant|>\<newline>'' @ content @ uni ''<|end|>\<newline>''
      else [])"



text \<open>
  A job with the generation parameters it omits written out: a key that \<open>input\<close> lacks
  is added with the default of lines 81 to 83, a key that it has is kept.
\<close>

definition set_default :: "string \<Rightarrow> pyval \<Rightarrow> (pystr \<times> pyval) list \<Rightarrow> (pystr \<times> pyval) list" where
  "set_default k d kvs = (if map_of kvs (uni k) = None then AList.update (uni k) d kvs else kvs)"

definition with_defaults :: "pyval \<Rightarrow> pyval" where
  "with_defaults input_data =
     (case input_data of
        PDict kvs \<Rightarrow>
          PDict (set_default ''top_p'' (PFloat 0.9)
                  (set_default ''temperature'' (PFloat 0.7)
                    (set_default ''max_tokens'' (PInt 2048) kvs)))
      | v \<Rightarrow> v)"

definition supply_defaults :: "pyval \<Rightarrow> pyval" where
  "supply_defaults job =
     (case job of
        PDict kvs \<Rightarrow>
          PDict (AList.update (uni ''input'')
                  (with_defaults (case map_of kvs (uni ''input'') of None \<Rightarrow> PDict [] | Some v \<Rightarrow> v))
                  kvs)
      | v \<Rightarrow> v)"

text \<open>
  A step on the objects of the job that tracks a step on values: it raises the same
  exception, or gives a reference whose value is the value given, and leaves the job as
  it is.
\<close>

definition tracks :: "pyval \<Rightarrow> ref run \<Rightarrow> exn + pyval \<Rightarrow> bool" where
  "tracks J m x \<longleftrightarrow>
     (case x of
        Inl e \<Rightarrow> m J = (Inl e, J)
      | Inr v \<Rightarrow> (\<exists>r. m J = (Inr r, J) \<and> deref J r = v))"

text \<open>A process that calls \<open>load_model\<close> once per invocation of a list.\<close>

fun load_each :: "('m, 't) env list \<Rightarrow> ('m, 't) globals \<Rightarrow> ('m, 't) globals" where
  "load_each [] g = g"
| "load_each (env # envs) g = load_each envs (snd (load_model env g))"

subsection \<open>Concrete inputs\<close>

text \<open>Turns and jobs are written with these two functions.\<close>

definition turn_of :: "string \<Rightarrow> pyval \<Rightarrow> pyval" where
  "turn_of role content = PDict [(uni ''role'', PStr (uni role)), (uni ''content'', content)]"

definition job_of :: "pyval \<Rightarrow> (pystr \<times> pyval) list \<Rightarrow> pyval" where
  "job_of messages params = PDict [(uni ''input'', PDict ((uni ''messages'', messages) # params))]"

text \<open>The job of \<open>test_handler\<close> (lines 164 to 172).\<close>

definition test_job :: pyval where
  "test_job =
     job_of (PList [turn_of ''user'' (PStr (uni ''Bonjour, comment allez-vous ?''))])
       [(uni ''max_tokens'', PInt 100), (uni ''temperature'', PFloat 0.7)]"

text \<open>The same turn after an earlier one, without and with the generation parameters.\<close>

definition longer_job :: pyval where
  "longer_job =
     job_of (PList [turn_of ''system'' (PStr (uni ''Sois bref.'')),
                    turn_of ''user'' (PStr (uni ''Bonjour, comment allez-vous ?''))]) []"

definition longer_job_explicit :: pyval where
  "longer_job_explicit =
     job_of (PList [turn_of ''system'' (PStr (uni ''Sois bref.'')),
                    turn_of ''user'' (PStr (uni ''Bonjour, comment allez-vous ?''))])
       [(uni ''max_tokens'', PInt 2048), (uni ''temperature'', PFloat 0.7),
        (uni ''top_p'', PFloat 0.9)]"

text \<open>
  Jobs whose last turn has the content \<open>null\<close> or a number, a job whose only message is
  a string, and a job with no messages.
\<close>

definition null_content_job :: pyval where
  "null_content_job =
     job_of (PList [turn_of ''user'' (PStr (uni ''Bonjour'')), turn_of ''assistant'' PNone]) []"

definition number_content_job :: pyval where
  "number_content_job = job_of (PList [turn_of ''user'' (PInt 5)]) []"

definition string_message_job :: pyval where
  "string_message_job = job_of (PList [PStr (uni ''Bonjour'')]) []"

definition empty_job :: pyval where
  "empty_job = job_of (PList []) []"

text \<open>Turns of the three roles, of another role, and without a role or a content.\<close>

definition sample_turns :: "pyval list" where
  "sample_turns =
     [turn_of ''system'' (PStr (uni ''S'')),
      turn_of ''tool'' (PStr (uni ''T'')),
      PDict [(uni ''content'', PStr (uni ''N''))],
      PDict [(uni ''role'', PStr (uni ''user''))],
      turn_of ''assistant'' (PStr (uni ''A''))]"

text \<open>
  An invocation in which every call of the library and every \<open>print\<close> returns: three
  prompt tokens, two generated tokens, and a decoded text with a trailing marker.
\<close>

definition quiet_library :: "(unit, unit) env" where
  "quiet_library =
     \<lparr>tokenizer_from_pretrained = Inr (),
      model_from_pretrained = Inr (),
      tokenizer_call = (\<lambda>t prompt. Inr [1, 2, 3]),
      to_device = (\<lambda>m ids. Inr ids),
      model_generate = (\<lambda>m t ids max_tokens temperature top_p. Inr (ids @ [4, 5])),
      tokenizer_decode = (\<lambda>t ids. Inr (uni '' Bien, merci.<|end|>'')),
      print_line = (\<lambda>l. None),
      fmt = (\<lambda>v. []),
      t_start = 0, t_gen_start = 1, t_gen_end = 3, t_end = 4\<rparr>"

text \<open>The same invocation with a loader, or the generation, that raises.\<close>

definition no_weights :: "(unit, unit) env" where
  "no_weights =
     quiet_library\<lparr>model_from_pretrained :=
       Inl (Exn (uni ''OSError'') (uni ''no weights found''))\<rparr>"

definition out_of_memory :: "(unit, unit) env" where
  "out_of_memory =
     quiet_library\<lparr>model_generate :=
       (\<lambda>m t ids max_tokens temperature top_p.
          Inl (Exn (uni ''RuntimeError'') (uni ''CUDA out of memory'')))\<rparr>"

text \<open>
  The same invocation on a standard output that takes ASCII only: every line of the
  handler starts with an emoji, so every \<open>print\<close> raises.
\<close>

definition ascii_error :: exn where
  "ascii_error = Exn (uni ''UnicodeEncodeError'') (uni ''ordinal not in range(128)'')"

definition ascii_stdout :: "(unit, unit) env" where
  "ascii_stdout = quiet_library\<lparr>print_line := (\<lambda>l. Some ascii_error)\<rparr>"

definition loaded_globals :: "(unit, unit) globals" where
  "loaded_globals = \<lparr>model = Some (), tokenizer = Some (), model_loaded = True\<rparr>"

section \<open>Properties of the parts\<close>

subsection \<open>Literals\<close>

lemma uni_eq_iff [simp]: "uni a = uni b \<longleftrightarrow> a = b"
  by (simp add: uni_def inj_map_eq_map inj_of_char)

lemma uni_Nil [simp]: "uni [] = []"
  by (simp add: uni_def)

lemma uni_eq_Nil [simp]: "uni a = [] \<longleftrightarrow> a = []"
  by (simp add: uni_def)

lemma Nil_eq_uni [simp]: "[] = uni a \<longleftrightarrow> a = []"
  by (auto simp: uni_def)

lemma uni_Cons: "uni (c # cs) = of_char c # uni cs"
  by (simp add: uni_def)

lemma uni_append: "uni (a @ b) = uni a @ uni b"
  by (simp add: uni_def)

subsection \<open>The library and the jobs\<close>








lemma job_messagesD:
  assumes "job_messages job = Some v"
  obtains j i where "job = PDict j" and "map_of j (uni ''input'') = Some (PDict i)"
    and "map_of i (uni ''messages'') = Some v"
  using assms unfolding job_messages_def
  by (cases job; cases "field ''input'' job") (auto elim!: field.elims split: Option.bind_splits)

lemma job_messages_job_of [simp]: "job_messages (job_of messages params) = Some messages"
  by (simp add: job_messages_def job_of_def)

subsection \<open>The echo handler\<close>

lemma simple_handler_text:
  assumes "job_messages job = Some (PList ms)" and "ms \<noteq> []"
    and "content_text (last ms) = Some s"
  shows "simple_handler job = echo_reply s"
proof -
  from assms(1) obtain j i where job: "job = PDict j"
    and inp: "map_of j (uni ''input'') = Some (PDict i)"
    and msgs: "map_of i (uni ''messages'') = Some (PList ms)"
    by (rule job_messagesD)
  from assms(3) obtain kvs where turn: "last ms = PDict kvs"
    and c: "map_of kvs (uni ''content'') = None \<and> s = []
            \<or> map_of kvs (uni ''content'') = Some (PStr s)"
    unfolding content_text_def by (auto split: pyval.splits option.splits)
  show ?thesis
    using job inp msgs assms(2) turn c
    by (auto simp: simple_handler_def simple_body_def echo_response_def ebind_def Let_def echo_reply_def)
qed

lemma simple_handler_no_text:
  assumes "job_messages job = Some (PList ms)" and "ms \<noteq> []"
    and "content_text (last ms) = None"
  shows "\<exists>e. simple_handler job = PDict [(uni ''error'', PStr (exn_str e))]"
proof -
  from assms(1) obtain j i where job: "job = PDict j"
    and inp: "map_of j (uni ''input'') = Some (PDict i)"
    and msgs: "map_of i (uni ''messages'') = Some (PList ms)"
    by (rule job_messagesD)
  have "\<exists>e. simple_body job = Inl e"
    using job inp msgs assms(2,3)
    by (auto simp: simple_body_def echo_response_def ebind_def content_text_def
        split: pyval.splits option.splits elim!: py_get.elims)
  then show ?thesis
    by (auto simp: simple_handler_def)
qed

lemma simple_handler_reply:
  "(\<exists>e. simple_handler job = PDict [(uni ''error'', PStr (exn_str e))]) \<or>
   simple_handler job = no_messages_reply \<or>
   (\<exists>s. simple_handler job = echo_reply s)"
  unfolding simple_handler_def simple_body_def echo_response_def ebind_def Let_def no_messages_reply_def
    echo_reply_def
  by (auto split: sum.splits if_splits pyval.splits)


lemma has_key_success:
  "has_key ''choices'' (echo_reply s)" "\<not> has_key ''error'' (echo_reply s)"
  "has_key ''choices'' (completion a p c tt gt)" "\<not> has_key ''error'' (completion a p c tt gt)"
  by (simp_all add: has_key_def echo_reply_def completion_def)


lemma chat_shape_has_choices: "chat_shape r \<Longrightarrow> has_key ''choices'' r"
  by (auto simp: chat_shape_def has_key_def split: option.splits)

subsection \<open>Loading\<close>

lemma load_model_loaded: "model_loaded g \<Longrightarrow> load_model env g = (Inr (), g)"
  by (simp add: load_model_def)

lemma load_model_Inr:
  "fst (load_model env g) = Inr u \<Longrightarrow> model_loaded (snd (load_model env g))"
  by (auto simp: load_model_def Let_def split: if_splits sum.splits option.splits)

lemma load_each_loaded: "model_loaded g \<Longrightarrow> load_each envs g = g"
  by (induction envs) (simp_all add: load_model_loaded)


lemma load_model_globals_ok: "globals_ok g \<Longrightarrow> globals_ok (snd (load_model env g))"
  by (auto simp: load_model_def globals_ok_def Let_def split: sum.splits option.splits)


subsection \<open>The prompt\<close>

lemma format_loop_mappings:
  "list_all is_mapping turns \<Longrightarrow>
     format_loop f turns prompt = Inr (prompt @ concat (map (turn_text f) turns))"
proof (induction turns arbitrary: prompt)
  case Nil
  then show ?case by simp
next
  case (Cons turn turns)
  from Cons.prems obtain kvs where turn: "turn = PDict kvs" and rest: "list_all is_mapping turns"
    by (cases turn) auto
  show ?case
    unfolding turn
    by (simp add: Cons.IH [OF rest] ebind_def turn_text_def Let_def split: option.splits)
qed



subsection \<open>The model handler\<close>

lemma generate_reply_Inr:
  assumes "generate_reply env g prompt a b c = Inr r"
  shows "\<exists>answer p q. r = completion answer p q (t_end env - t_start env)
                                         (t_gen_end env - t_gen_start env)"
  using assms
  unfolding generate_reply_def ebind_def Let_def completion_def
  by (auto split: sum.splits)



lemma respond_Inr:
  assumes "respond env g job = Inr r"
  shows "r = no_messages_reply \<or>
         (\<exists>answer p c. r = completion answer p c (t_end env - t_start env)
                                          (t_gen_end env - t_gen_start env))"
  using assms
  unfolding respond_def ebind_def no_messages_reply_def
  by (auto split: sum.splits if_splits dest: generate_reply_Inr)


text \<open>The outcomes of the model handler, and the globals it leaves.\<close>

lemma handler_cases:
  "handler env g job =
     (case load_model env g of
        (Inl e, g') \<Rightarrow>
          (case print_line env (HandlerError (exn_str e)) of
             Some e' \<Rightarrow> (Inl e', g') | None \<Rightarrow> (Inr (error_reply env e), g'))
      | (Inr u, g') \<Rightarrow>
          (case respond env g' job of
             Inl e \<Rightarrow>
               (case print_line env (HandlerError (exn_str e)) of
                  Some e' \<Rightarrow> (Inl e', g') | None \<Rightarrow> (Inr (error_reply env e), g'))
           | Inr r \<Rightarrow> (Inr r, g')))"
  by (simp add: handler_def handler_body_def error_reply_def
      split: prod.splits sum.splits option.splits)

lemma handler_snd: "snd (handler env g job) = snd (load_model env g)"
  by (simp add: handler_cases split: prod.splits sum.splits option.splits)

lemma handler_reply:
  assumes "fst (handler env g job) = Inr r"
  shows "(\<exists>e. r = error_reply env e) \<or> r = no_messages_reply \<or>
         (\<exists>answer p c. r = completion answer p c (t_end env - t_start env)
                                          (t_gen_end env - t_gen_start env))"
proof (cases "load_model env g")
  case (Pair l g')
  show ?thesis
  proof (cases l)
    case (Inl e)
    with Pair assms show ?thesis by (auto simp: handler_cases split: option.splits)
  next
    case (Inr u)
    show ?thesis
    proof (cases "respond env g' job")
      case (Inl e)
      with Pair Inr assms show ?thesis by (auto simp: handler_cases split: option.splits)
    next
      case r: (Inr r')
      from respond_Inr [OF r] Pair Inr r assms show ?thesis by (auto simp: handler_cases)
    qed
  qed
qed



lemma handler_globals_ok: "globals_ok g \<Longrightarrow> globals_ok (snd (handler env g job))"
  by (simp add: handler_snd load_model_globals_ok)

subsection \<open>Defaults\<close>

lemma map_of_set_default:
  "map_of (set_default k d kvs) (uni k') =
     (if k' = k then Some (case map_of kvs (uni k) of None \<Rightarrow> d | Some v \<Rightarrow> v)
      else map_of kvs (uni k'))"
  by (auto simp: set_default_def update_conv' split: option.splits)

lemma py_get_with_defaults:
  "py_get (with_defaults (PDict i)) (uni ''messages'') d = py_get (PDict i) (uni ''messages'') d"
  "py_get (with_defaults (PDict i)) (uni ''max_tokens'') (PInt 2048) =
     py_get (PDict i) (uni ''max_tokens'') (PInt 2048)"
  "py_get (with_defaults (PDict i)) (uni ''temperature'') (PFloat 0.7) =
     py_get (PDict i) (uni ''temperature'') (PFloat 0.7)"
  "py_get (with_defaults (PDict i)) (uni ''top_p'') (PFloat 0.9) =
     py_get (PDict i) (uni ''top_p'') (PFloat 0.9)"
  by (simp_all add: with_defaults_def map_of_set_default split: option.splits)

lemma with_defaults_field:
  "k = ''max_tokens'' \<or> k = ''temperature'' \<or> k = ''top_p'' \<Longrightarrow>
     field k (with_defaults (PDict i)) =
       Some (case map_of i (uni k) of
               None \<Rightarrow> (if k = ''max_tokens'' then PInt 2048
                         else if k = ''temperature'' then PFloat 0.7 else PFloat 0.9)
             | Some v \<Rightarrow> v)"
  by (auto simp: with_defaults_def map_of_set_default split: option.splits)

lemma respond_input:
  "py_get job (uni ''input'') (PDict []) = py_get job' (uni ''input'') (PDict []) \<Longrightarrow>
     respond env g job = respond env g job'"
  by (simp only: respond_def)

lemma respond_with_defaults:
  "respond env g (PDict [(uni ''input'', with_defaults v)]) =
     respond env g (PDict [(uni ''input'', v)])"
proof (cases v)
  case (PDict i)
  have "with_defaults (PDict i) = PDict (set_default ''top_p'' (PFloat 0.9)
          (set_default ''temperature'' (PFloat 0.7) (set_default ''max_tokens'' (PInt 2048) i)))"
    by (simp add: with_defaults_def)
  then obtain i' where i': "with_defaults (PDict i) = PDict i'" by blast
  have input: "py_get (PDict [(uni ''input'', x)]) (uni ''input'') (PDict []) = Inr x" for x
    by simp
  have "respond env g (PDict [(uni ''input'', PDict i')]) =
      respond env g (PDict [(uni ''input'', PDict i)])"
    by (simp only: respond_def ebind_def input sum.case py_get_with_defaults [of i, unfolded i'])
  with PDict i' show ?thesis by simp
qed (simp_all add: with_defaults_def)

lemma respond_supply_defaults: "respond env g (supply_defaults job) = respond env g job"
proof (cases job)
  case (PDict kvs)
  define v where "v = (case map_of kvs (uni ''input'') of None \<Rightarrow> PDict [] | Some x \<Rightarrow> x)"
  have "respond env g (supply_defaults job) =
      respond env g (PDict [(uni ''input'', with_defaults v)])"
    by (rule respond_input) (simp add: PDict supply_defaults_def update_conv' v_def)
  also have "\<dots> = respond env g (PDict [(uni ''input'', v)])"
    by (rule respond_with_defaults)
  also have "\<dots> = respond env g job"
    by (rule respond_input) (simp add: PDict v_def)
  finally show ?thesis .
qed (simp_all add: supply_defaults_def)

subsection \<open>The class of an exception\<close>

lemma same_text_simps [simp]:
  "same_text (Inl e) (Inl e') \<longleftrightarrow> exn_str e = exn_str e'"
  "same_text (Inr x) (Inr y) \<longleftrightarrow> x = y"
  "\<not> same_text (Inl e) (Inr y)" "\<not> same_text (Inr x) (Inl e')"
  by (simp_all add: same_text_def)

lemma same_text_refl [simp]: "same_text r r"
  by (cases r) simp_all

lemma reclass_simps [simp]:
  "print_line (reclass f env) = print_line env" "fmt (reclass f env) = fmt env"
  "t_start (reclass f env) = t_start env" "t_end (reclass f env) = t_end env"
  "t_gen_start (reclass f env) = t_gen_start env" "t_gen_end (reclass f env) = t_gen_end env"
  "tokenizer_from_pretrained (reclass f env) = reclass_exn f (tokenizer_from_pretrained env)"
  "model_from_pretrained (reclass f env) = reclass_exn f (model_from_pretrained env)"
  "tokenizer_call (reclass f env) t prompt = reclass_exn f (tokenizer_call env t prompt)"
  "to_device (reclass f env) m ids = reclass_exn f (to_device env m ids)"
  "model_generate (reclass f env) m t ids a b c = reclass_exn f (model_generate env m t ids a b c)"
  "tokenizer_decode (reclass f env) t ids = reclass_exn f (tokenizer_decode env t ids)"
  by (simp_all add: reclass_def)

lemma reclass_exn_simps [simp]:
  "reclass_exn f (Inl e) = Inl (Exn (f (exn_class e)) (exn_str e))"
  "reclass_exn f (Inr x) = Inr x"
  by (simp_all add: reclass_exn_def)

lemma load_failed_text:
  "exn_str e = exn_str e' \<Longrightarrow> exn_str (load_failed env e) = exn_str (load_failed env e')"
  by (simp add: load_failed_def split: option.splits)





subsection \<open>The handlers on the concrete inputs\<close>

lemma quiet_fields:
  "print_line quiet_library l = None" "print_line no_weights l = None"
  "print_line out_of_memory l = None" "print_line ascii_stdout l = Some ascii_error"
  "t_end quiet_library - t_start quiet_library = 4" "t_end no_weights - t_start no_weights = 4"
  "t_end out_of_memory - t_start out_of_memory = 4"
  by (simp_all add: quiet_library_def no_weights_def out_of_memory_def ascii_stdout_def)

lemma load_model_quiet: "load_model quiet_library initial_globals = (Inr (), loaded_globals)"
  by (simp add: load_model_def quiet_library_def initial_globals_def loaded_globals_def)


lemma strip_answer:
  "py_strip (before_sep (uni ''<|end|>'') (uni '' Bien, merci.<|end|>'')) = uni ''Bien, merci.''"
  by (simp add: uni_Cons py_strip_def py_isspace_def)

lemma contains_answer: "contains (uni ''<|end|>'') (uni '' Bien, merci.<|end|>'')"
  by (simp add: uni_Cons)

lemma respond_quiet_test_job:
  "respond quiet_library loaded_globals test_job =
     Inr (completion (uni ''Bien, merci.'') 3 2 4 2)"
  by (simp add: respond_def generate_reply_def ebind_def test_job_def job_of_def turn_of_def
      format_messages_def the_tokenizer_def the_model_def py_print_def quiet_library_def
      loaded_globals_def completion_def strip_answer contains_answer)

lemma handler_quiet_test_job:
  "handler quiet_library initial_globals test_job =
     (Inr (completion (uni ''Bien, merci.'') 3 2 4 2), loaded_globals)"
  by (simp add: handler_cases load_model_quiet respond_quiet_test_job)

lemma simple_handler_empty_job: "simple_handler empty_job = no_messages_reply"
  by (simp add: simple_handler_def simple_body_def echo_response_def ebind_def empty_job_def job_of_def
      no_messages_reply_def)



lemma load_model_out_of_memory:
  "load_model out_of_memory initial_globals = (Inr (), loaded_globals)"
  by (simp add: load_model_def out_of_memory_def quiet_library_def initial_globals_def
      loaded_globals_def)

lemma handler_out_of_memory:
  "handler out_of_memory initial_globals test_job =
     (Inr (PDict [(uni ''error'', PStr (uni ''CUDA out of memory'')),
                  (uni ''execution_time'', PFloat 4)]),
      loaded_globals)"
proof -
  have "respond out_of_memory loaded_globals test_job =
      Inl (Exn (uni ''RuntimeError'') (uni ''CUDA out of memory''))"
    by (simp add: respond_def generate_reply_def ebind_def test_job_def job_of_def turn_of_def
        format_messages_def the_tokenizer_def the_model_def py_print_def out_of_memory_def
        quiet_library_def loaded_globals_def)
  then show ?thesis
    by (simp add: handler_cases load_model_out_of_memory error_reply_def quiet_fields)
qed





lemma simple_handler_string_message:
  "simple_handler string_message_job =
     PDict [(uni ''error'', PStr (exn_str (no_attribute (PStr (uni ''Bonjour'')) ''get'')))]"
  by (simp add: simple_handler_def simple_body_def echo_response_def ebind_def string_message_job_def job_of_def)

lemma split_test_content: "length (py_split (uni ''Bonjour, comment allez-vous ?'')) = 4"
  by (simp add: uni_Cons py_split_def py_isspace_def)

lemma split_test_response:
  "length (py_split (uni ''Echo: '' @ uni ''Bonjour, comment allez-vous ?'')) = 5"
  by (simp add: uni_Cons py_split_def py_isspace_def)

lemma simple_handler_test_job:
  "simple_handler test_job = echo_reply (uni ''Bonjour, comment allez-vous ?'')"
  by (rule simple_handler_text [where ms = "[turn_of ''user'' (PStr (uni ''Bonjour, comment allez-vous ?''))]"])
     (simp_all add: test_job_def content_text_def turn_of_def)

subsection \<open>Messages that are not mappings, and the last message alone\<close>




lemma simple_handler_last:
  assumes "job_messages job = Some (PList ms)" and "ms \<noteq> []"
    and "job_messages job' = Some (PList ms')" and "ms' \<noteq> []" and "last ms' = last ms"
  shows "simple_handler job' = simple_handler job"
proof -
  from assms(1) obtain j i where job: "job = PDict j"
    and inp: "map_of j (uni ''input'') = Some (PDict i)"
    and msgs: "map_of i (uni ''messages'') = Some (PList ms)"
    by (rule job_messagesD)
  from assms(3) obtain j' i' where job': "job' = PDict j'"
    and inp': "map_of j' (uni ''input'') = Some (PDict i')"
    and msgs': "map_of i' (uni ''messages'') = Some (PList ms')"
    by (rule job_messagesD)
  show ?thesis
    using assms(2,4,5) inp msgs inp' msgs'
    by (simp add: job job' simple_handler_def simple_body_def echo_response_def ebind_def)
qed



subsection \<open>The objects of the job\<close>

lemma reach_append: "reach v (p @ [st]) = Option.bind (reach v p) (\<lambda>c. child c st)"
  by (induction p arbitrary: v) (auto split: Option.bind_splits)

lemma deref_job [simp]: "deref J (Obj []) = J"
  by (simp add: deref_def)

lemma deref_Val [simp]: "deref J (Val v) = v"
  by (simp add: deref_def)

lemma deref_Obj_child:
  assumes "child (deref J (Obj p)) st = Some v"
  shows "deref J (Obj (p @ [st])) = v"
proof (cases "reach J p")
  case None
  with assms show ?thesis by (simp add: deref_def)
next
  case (Some w)
  with assms have "child w st = Some v" by (simp add: deref_def)
  with Some show ?thesis by (simp add: deref_def reach_append)
qed

lemma deref_sub:
  assumes "child (deref J r) st = Some v"
  shows "deref J (sub r st v) = v"
proof (cases r)
  case (Obj p)
  with assms show ?thesis by (simp add: deref_Obj_child)
next
  case (Val w)
  then show ?thesis by simp
qed


lemma aside_apply [simp]: "aside x J = (x, J)"
  by (simp add: aside_def)

lemma rbind_truthy [simp]: "rbind (truthy_run r) f J = f (py_truthy (deref J r)) J"
  by (simp add: rbind_def truthy_run_def)

lemma rbind_value [simp]: "rbind (value_run r) f J = f (deref J r) J"
  by (simp add: rbind_def value_run_def)

lemma tracksI_Inl: "m J = (Inl e, J) \<Longrightarrow> tracks J m (Inl e)"
  by (simp add: tracks_def)

lemma tracksI_Inr: "m J = (Inr r, J) \<Longrightarrow> deref J r = v \<Longrightarrow> tracks J m (Inr v)"
  by (auto simp: tracks_def)

lemma rbind_tracks:
  assumes "tracks J m x" and "\<And>r v. x = Inr v \<Longrightarrow> deref J r = v \<Longrightarrow> f r J = (k v, J)"
  shows "rbind m f J = (ebind x k, J)"
proof (cases x)
  case (Inl e)
  with assms(1) show ?thesis by (simp add: tracks_def rbind_def ebind_def)
next
  case (Inr v)
  with assms(1) obtain r where "m J = (Inr r, J)" and "deref J r = v"
    by (auto simp: tracks_def)
  with Inr assms(2) [OF Inr] show ?thesis by (simp add: rbind_def ebind_def)
qed

lemma get_run_tracks: "tracks J (get_run r k d) (py_get (deref J r) k d)"
proof (cases "deref J r")
  case (PDict kvs)
  show ?thesis
  proof (cases "map_of kvs k")
    case None
    with PDict show ?thesis
      by (intro tracksI_Inr [where r = "Val d"] | simp add: get_run_def)+
  next
    case (Some v)
    have "deref J (sub r (Key k) v) = v"
      by (rule deref_sub) (simp add: PDict Some)
    with PDict Some show ?thesis
      by (intro tracksI_Inr [where r = "sub r (Key k) v"] | simp add: get_run_def)+
  qed
qed (simp_all add: tracks_def get_run_def)


lemma last_run_tracks: "tracks J (last_run r) (py_last (deref J r))"
proof (cases "deref J r")
  case (PList xs)
  show ?thesis
  proof (cases "xs = []")
    case True
    with PList show ?thesis by (simp add: tracks_def last_run_def)
  next
    case False
    have "deref J (sub r (Index (length xs - 1)) (last xs)) = last xs"
      by (rule deref_sub) (use False in \<open>simp add: PList last_conv_nth\<close>)
    moreover have "last_run r J = (Inr (sub r (Index (length xs - 1)) (last xs)), J)"
      using False by (simp add: last_run_def PList)
    moreover have "py_last (deref J r) = Inr (last xs)"
      using False by (simp add: PList)
    ultimately show ?thesis by (simp only: tracksI_Inr)
  qed
qed (simp_all add: tracks_def last_run_def)

lemma iter_run_list:
  assumes "deref J r = PList xs"
  shows "\<exists>rs. iter_run r J = (Inr rs, J) \<and> map (deref J) rs = xs"
proof -
  have d: "deref J (sub r (Index n) (xs ! n)) = xs ! n" if "n < length xs" for n
    by (rule deref_sub) (simp add: assms that)
  have "map (deref J) (map (\<lambda>n. sub r (Index n) (xs ! n)) [0..<length xs]) = xs"
  proof (rule nth_equalityI)
    show "length (map (deref J) (map (\<lambda>n. sub r (Index n) (xs ! n)) [0..<length xs])) = length xs"
      by simp
  next
    fix i
    assume "i < length (map (deref J) (map (\<lambda>n. sub r (Index n) (xs ! n)) [0..<length xs]))"
    then show "map (deref J) (map (\<lambda>n. sub r (Index n) (xs ! n)) [0..<length xs]) ! i = xs ! i"
      by (simp add: d)
  qed
  moreover have "iter_run r J = (Inr (map (\<lambda>n. sub r (Index n) (xs ! n)) [0..<length xs]), J)"
    by (simp add: iter_run_def assms)
  ultimately show ?thesis by blast
qed

lemma iter_run_Inl: "py_iter (deref J r) = Inl e \<Longrightarrow> iter_run r J = (Inl e, J)"
  by (cases "deref J r") (simp_all add: iter_run_def)

lemma iter_run_Inr:
  assumes "py_iter (deref J r) = Inr vs"
  shows "\<exists>rs. iter_run r J = (Inr rs, J) \<and> map (deref J) rs = vs"
proof (cases "deref J r")
  case (PList xs)
  with assms iter_run_list [OF PList] show ?thesis by simp
next
  case (PStr s)
  with assms show ?thesis by (auto simp: iter_run_def comp_def)
next
  case (PDict kvs)
  with assms show ?thesis by (auto simp: iter_run_def comp_def)
qed (use assms in simp_all)


lemma tracks_Inl: "tracks J m x \<Longrightarrow> x = Inl e \<Longrightarrow> m J = (Inl e, J)"
  by (simp add: tracks_def)

lemma tracks_Inr: "tracks J m x \<Longrightarrow> x = Inr v \<Longrightarrow> \<exists>r. m J = (Inr r, J) \<and> deref J r = v"
  by (simp add: tracks_def)

lemma rbind_Inl: "m J = (Inl e, J') \<Longrightarrow> rbind m f J = (Inl e, J')"
  by (simp add: rbind_def)

lemma rbind_Inr: "m J = (Inr x, J') \<Longrightarrow> rbind m f J = f x J'"
  by (simp add: rbind_def)

lemma format_loop_run_eq:
  "map (deref J) rs = vs \<Longrightarrow> format_loop_run f rs prompt J = (format_loop f vs prompt, J)"
proof (induction rs arbitrary: vs prompt)
  case Nil
  then show ?case by simp
next
  case (Cons r rs)
  then obtain v vs' where vs: "vs = v # vs'" and v: "deref J r = v"
    and vs': "map (deref J) rs = vs'"
    by auto
  note IH = Cons.IH [OF vs']
  have role: "tracks J (get_run r (uni ''role'') (PStr [])) (py_get v (uni ''role'') (PStr []))"
    and content:
      "tracks J (get_run r (uni ''content'') (PStr [])) (py_get v (uni ''content'') (PStr []))"
    using get_run_tracks [of J r] by (simp_all add: v)
  show ?case
  proof (cases "py_get v (uni ''role'') (PStr [])")
    case (Inl e)
    from tracks_Inl [OF role Inl] show ?thesis
      by (simp add: vs Inl rbind_Inl ebind_def)
  next
    case rv: (Inr rv)
    from tracks_Inr [OF role rv] obtain rr
      where rr: "get_run r (uni ''role'') (PStr []) J = (Inr rr, J)" "deref J rr = rv"
      by blast
    show ?thesis
    proof (cases "py_get v (uni ''content'') (PStr [])")
      case (Inl e)
      from tracks_Inl [OF content Inl] show ?thesis
        by (simp add: vs rv Inl rr rbind_Inl rbind_Inr ebind_def)
    next
      case cv: (Inr cv)
      from tracks_Inr [OF content cv] obtain cr
        where cr: "get_run r (uni ''content'') (PStr []) J = (Inr cr, J)" "deref J cr = cv"
        by blast
      show ?thesis
        by (simp add: vs rv cv rr cr rbind_Inr ebind_def IH)
    qed
  qed
qed

lemma format_messages_run_eq:
  "format_messages_run f r J = (format_messages f (deref J r), J)"
proof (cases "py_iter (deref J r)")
  case (Inl e)
  from iter_run_Inl [OF this] show ?thesis
    by (simp add: format_messages_run_def format_messages_def Inl rbind_Inl ebind_def)
next
  case (Inr vs)
  from iter_run_Inr [OF this] obtain rs
    where rs: "iter_run r J = (Inr rs, J)" "map (deref J) rs = vs" by blast
  show ?thesis
  proof (cases "format_loop f vs []")
    case (Inl e)
    with format_loop_run_eq [OF rs(2), of f "[]"] show ?thesis
      by (simp add: format_messages_run_def format_messages_def Inr rs(1) rbind_Inr rbind_Inl
          ebind_def)
  next
    case p: (Inr p)
    with format_loop_run_eq [OF rs(2), of f "[]"] show ?thesis
      by (simp add: format_messages_run_def format_messages_def Inr rs(1) rbind_Inr ebind_def)
  qed
qed


lemma rbind_get:
  assumes "\<And>x. py_get (deref J r) k d = Inr (deref J x) \<Longrightarrow> f x J = (h (deref J x), J)"
  shows "rbind (get_run r k d) f J = (ebind (py_get (deref J r) k d) h, J)"
proof (cases "py_get (deref J r) k d")
  case (Inl e)
  from tracks_Inl [OF get_run_tracks Inl] show ?thesis
    by (simp add: Inl rbind_Inl ebind_def)
next
  case (Inr v)
  from tracks_Inr [OF get_run_tracks Inr] obtain x
    where x: "get_run r k d J = (Inr x, J)" "deref J x = v" by blast
  with assms [of x] Inr show ?thesis
    by (simp add: rbind_Inr ebind_def)
qed

lemma rbind_last:
  assumes "\<And>x. py_last (deref J r) = Inr (deref J x) \<Longrightarrow> f x J = (h (deref J x), J)"
  shows "rbind (last_run r) f J = (ebind (py_last (deref J r)) h, J)"
proof (cases "py_last (deref J r)")
  case (Inl e)
  from tracks_Inl [OF last_run_tracks Inl] show ?thesis
    by (simp add: Inl rbind_Inl ebind_def)
next
  case (Inr v)
  from tracks_Inr [OF last_run_tracks Inr] obtain x
    where x: "last_run r J = (Inr x, J)" "deref J x = v" by blast
  with assms [of x] Inr show ?thesis
    by (simp add: rbind_Inr ebind_def)
qed

lemma rbind_format:
  assumes "\<And>p. f p J = (h p, J)"
  shows "rbind (format_messages_run fm r) f J = (ebind (format_messages fm (deref J r)) h, J)"
  using assms
  by (cases "format_messages fm (deref J r)")
     (simp_all add: format_messages_run_eq rbind_Inl rbind_Inr ebind_def)

lemma simple_body_run_eq: "simple_body_run J = (simple_body J, J)"
proof -
  have "simple_body_run J = (simple_body (deref J (Obj [])), J)"
    unfolding simple_body_run_def simple_body_def
    apply (rule rbind_get)
    apply (rule rbind_get)
    subgoal for input_data messages
      apply (cases "py_truthy (deref J messages)")
       apply (simp only: rbind_truthy simp_thms if_False)
       apply (rule rbind_last)
       apply (rule rbind_get)
       apply (simp only: rbind_value aside_apply)
      apply (simp only: rbind_truthy simp_thms if_True aside_apply)
      done
    done
  then show ?thesis by simp
qed

lemma respond_run_eq: "respond_run env g J = (respond env g J, J)"
proof -
  have "respond_run env g J = (respond env g (deref J (Obj [])), J)"
    unfolding respond_run_def respond_def
    apply (rule rbind_get)
    apply (rule rbind_get)
    apply (rule rbind_get)
    apply (rule rbind_get)
    apply (rule rbind_get)
    subgoal for input_data messages max_tokens temperature top_p
      apply (cases "py_truthy (deref J messages)")
       apply (simp only: rbind_truthy simp_thms if_False)
       apply (rule rbind_format)
       apply (simp only: rbind_value aside_apply)
      apply (simp only: rbind_truthy simp_thms if_True aside_apply)
      done
    done
  then show ?thesis by simp
qed

lemma simple_handler_run_eq: "simple_handler_run J = (simple_handler J, J)"
  by (simp add: simple_handler_run_def simple_handler_def simple_body_run_eq split: sum.splits)

lemma handler_run_eq:
  "handler_run env (g, J) = (fst (handler env g J), snd (handler env g J), J)"
  by (simp add: handler_run_def handler_def handler_body_def respond_run_eq
      split: prod.splits sum.splits option.splits)

section \<open>The echo handler answers the last message\<close>

text \<open>
  C10. In the echo handler, for every job with a non-empty messages list, the response
  depends on the last element of the list alone: a job whose list ends with the same
  element gets the same response, whatever comes before it, and the handler is a function
  of the job. When the last element is a mapping with a text content (a \<open>str\<close> under
  \<open>content\<close>, or no such key, read as the empty text), the content of the returned
  choice is \<open>Echo: \<close> followed by that text. When it is not a mapping, or its content is
  not a \<open>str\<close>, the handler returns a mapping with \<open>error\<close> and without \<open>choices\<close>.
\<close>

theorem simple_handler_echo:
  assumes "job_messages job = Some (PList ms)" and "ms \<noteq> []"
  shows "(content_text (last ms) = Some s \<longrightarrow>
            choice_content (simple_handler job) = Some (PStr (uni ''Echo: '' @ s))) \<and>
         (content_text (last ms) = None \<longrightarrow>
            has_key ''error'' (simple_handler job) \<and> \<not> has_key ''choices'' (simple_handler job) \<and>
            choice_content (simple_handler job) = None) \<and>
         (\<forall>job' ms'. job_messages job' = Some (PList ms') \<and> ms' \<noteq> [] \<and> last ms' = last ms
            \<longrightarrow> simple_handler job' = simple_handler job)"
proof (intro conjI impI allI)
  assume "content_text (last ms) = Some s"
  from simple_handler_text [OF assms this]
  show "choice_content (simple_handler job) = Some (PStr (uni ''Echo: '' @ s))"
    by (simp add: choice_content_def echo_reply_def)
next
  assume "content_text (last ms) = None"
  from simple_handler_no_text [OF assms this] obtain e
    where e: "simple_handler job = PDict [(uni ''error'', PStr (exn_str e))]" by blast
  show "has_key ''error'' (simple_handler job)" "\<not> has_key ''choices'' (simple_handler job)"
    "choice_content (simple_handler job) = None"
    by (simp_all add: e has_key_def choice_content_def)
next
  fix job' ms'
  assume "job_messages job' = Some (PList ms') \<and> ms' \<noteq> [] \<and> last ms' = last ms"
  with simple_handler_last [OF assms] show "simple_handler job' = simple_handler job"
    by blast
qed

theorem simple_handler_echo_witness:
  "choice_content (simple_handler test_job) =
     Some (PStr (uni ''Echo: '' @ uni ''Bonjour, comment allez-vous ?'')) \<and>
   has_key ''error'' (simple_handler number_content_job) \<and>
   \<not> has_key ''choices'' (simple_handler number_content_job) \<and>
   simple_handler longer_job = simple_handler test_job"
proof -
  let ?t = "turn_of ''user'' (PStr (uni ''Bonjour, comment allez-vous ?''))"
  have m: "job_messages test_job = Some (PList [?t])"
    and m': "job_messages longer_job = Some (PList [turn_of ''system'' (PStr (uni ''Sois bref.'')), ?t])"
    and n: "job_messages number_content_job = Some (PList [turn_of ''user'' (PInt 5)])"
    by (simp_all add: test_job_def longer_job_def number_content_job_def)
  have c: "content_text (last [?t]) = Some (uni ''Bonjour, comment allez-vous ?'')"
    and d: "content_text (last [turn_of ''user'' (PInt 5)]) = None"
    by (simp_all add: content_text_def turn_of_def)
  from simple_handler_echo [OF m, where s = "uni ''Bonjour, comment allez-vous ?''"]
    simple_handler_echo [OF n, where s = "[]"] c d m'
  show ?thesis by simp
qed

text \<open>
  The job \<open>null_content_job\<close> has a non-empty messages list, and the echo handler returns
  an error mapping for it: there is no choice, hence no content \<open>Echo: ...\<close>.
\<close>

theorem simple_handler_null_content:
  "job_messages null_content_job =
     Some (PList [turn_of ''user'' (PStr (uni ''Bonjour'')), turn_of ''assistant'' PNone]) \<and>
   simple_handler null_content_job =
     PDict [(uni ''error'', PStr (exn_str (no_attribute PNone ''split'')))] \<and>
   choice_content (simple_handler null_content_job) = None"
  by (simp add: null_content_job_def job_of_def turn_of_def job_messages_def simple_handler_def
      simple_body_def echo_response_def ebind_def choice_content_def)

section \<open>The shape of a successful response\<close>




section \<open>No messages\<close>




section \<open>Exceptions become an error field\<close>




section \<open>One of two results\<close>




section \<open>Optional generation parameters\<close>

text \<open>
  C5. The generation parameters are optional. For every job, the model handler returns
  the same response and leaves the same globals as for the job in which each parameter
  that the input omits is written out with its default: \<open>max_tokens\<close> 2048,
  \<open>temperature\<close> 0.7, \<open>top_p\<close> 0.9. The last three parts say what that job holds
  under each of the three keys.
\<close>

theorem handler_defaults:
  "handler env g (supply_defaults job) = handler env g job \<and>
   field ''max_tokens'' (with_defaults (PDict i)) =
     Some (case map_of i (uni ''max_tokens'') of None \<Rightarrow> PInt 2048 | Some v \<Rightarrow> v) \<and>
   field ''temperature'' (with_defaults (PDict i)) =
     Some (case map_of i (uni ''temperature'') of None \<Rightarrow> PFloat 0.7 | Some v \<Rightarrow> v) \<and>
   field ''top_p'' (with_defaults (PDict i)) =
     Some (case map_of i (uni ''top_p'') of None \<Rightarrow> PFloat 0.9 | Some v \<Rightarrow> v)"
  by (simp add: handler_cases respond_supply_defaults with_defaults_field
      split: prod.splits sum.splits)

theorem handler_defaults_witness:
  "handler quiet_library initial_globals longer_job_explicit =
     handler quiet_library initial_globals longer_job"
proof -
  have "supply_defaults longer_job = longer_job_explicit"
    by (simp add: supply_defaults_def with_defaults_def set_default_def longer_job_def
        longer_job_explicit_def job_of_def)
  with handler_defaults [where env = quiet_library and g = initial_globals
      and job = longer_job and i = "[]"]
  show ?thesis by simp
qed

section \<open>Loading once\<close>

text \<open>
  C6. Once \<open>model_loaded\<close> is set, a call of \<open>load_model\<close> returns at once and leaves
  the three globals as they are, whatever the loaders would do, and so does any sequence
  of later calls. A call that returns sets the flag, so after the first successful call
  no later call changes the model, the tokenizer or the flag.
\<close>

theorem load_model_memoized:
  "(model_loaded g \<longrightarrow> load_model env g = (Inr (), g) \<and> load_each envs g = g) \<and>
   (fst (load_model env g) = Inr () \<longrightarrow>
      model_loaded (snd (load_model env g)) \<and>
      load_each envs (snd (load_model env g)) = snd (load_model env g))"
  by (simp add: load_model_loaded load_each_loaded load_model_Inr)

theorem load_model_memoized_witness:
  "load_model no_weights loaded_globals = (Inr (), loaded_globals) \<and>
   load_each [no_weights, quiet_library, out_of_memory]
     (snd (load_model quiet_library initial_globals)) = loaded_globals"
  using load_model_memoized [where g = loaded_globals and env = no_weights and envs = "[]"]
    load_model_memoized [where g = initial_globals and env = quiet_library
      and envs = "[no_weights, quiet_library, out_of_memory]"]
  by (simp add: load_model_quiet loaded_globals_def)

section \<open>The prompt\<close>

text \<open>
  C8. For every list of messages, each a mapping, \<open>format_messages\<close> returns the blocks
  of the messages in order, followed by the opening \<open><|assistant|>\<close> and a newline: a
  message whose role is \<open>system\<close>, \<open>user\<close> or \<open>assistant\<close> gives the marker of its
  role, a newline, its content, \<open><|end|>\<close> and a newline; a message with another role
  or with no role gives nothing.
\<close>

theorem format_messages_prompt:
  assumes "list_all is_mapping turns"
  shows "format_messages f (PList turns) =
           Inr (concat (map (turn_text f) turns) @ uni ''<|assistant|>\<newline>'') \<and>
         (field ''role'' turn \<noteq> Some (PStr (uni ''system'')) \<and>
          field ''role'' turn \<noteq> Some (PStr (uni ''user'')) \<and>
          field ''role'' turn \<noteq> Some (PStr (uni ''assistant'')) \<longrightarrow> turn_text f turn = [])"
  using assms
  by (simp add: format_messages_def ebind_def format_loop_mappings turn_text_def Let_def)

theorem format_messages_prompt_witness:
  "format_messages (\<lambda>v. []) (PList sample_turns) =
     Inr (uni ''<|system|>\<newline>S<|end|>\<newline><|user|>\<newline><|end|>\<newline><|assistant|>\<newline>A<|end|>\<newline><|assistant|>\<newline>'')"
proof -
  have "list_all is_mapping sample_turns"
    by (simp add: sample_turns_def turn_of_def)
  from format_messages_prompt [OF this, where f = "\<lambda>v. []" and turn = "PDict []"]
  show ?thesis
    by (simp add: sample_turns_def turn_of_def turn_text_def py_format_def uni_append [symmetric])
qed

section \<open>The usage counters\<close>

text \<open>
  C9. In every response of either handler that has the field \<open>choices\<close>, the three
  usage counters are integers and \<open>total_tokens\<close> is the sum of \<open>prompt_tokens\<close> and
  \<open>completion_tokens\<close>.
\<close>

theorem usage_total:
  "(has_key ''choices'' (simple_handler job) \<longrightarrow>
      (\<exists>p c. usage_counts (simple_handler job) = Some (p, c, p + c))) \<and>
   (fst (handler env g job) = Inr r \<and> has_key ''choices'' r \<longrightarrow>
      (\<exists>p c. usage_counts r = Some (p, c, p + c)))"
proof -
  have "has_key ''choices'' (simple_handler job) \<longrightarrow>
      (\<exists>p c. usage_counts (simple_handler job) = Some (p, c, p + c))"
    using simple_handler_reply [of job]
    by (auto simp: no_messages_reply_def echo_reply_def has_key_def usage_counts_def)
  moreover have "fst (handler env g job) = Inr r \<and> has_key ''choices'' r \<longrightarrow>
      (\<exists>p c. usage_counts r = Some (p, c, p + c))"
    using handler_reply [of env g job r]
    by (auto simp: error_reply_def no_messages_reply_def completion_def has_key_def
        usage_counts_def)
  ultimately show ?thesis by blast
qed

theorem usage_total_witness:
  "usage_counts (simple_handler test_job) = Some (4, 5, 4 + 5) \<and>
   usage_counts (completion (uni ''Bien, merci.'') 3 2 4 2) = Some (3, 2, 3 + 2)"
  using usage_total [where job = test_job and env = quiet_library and g = initial_globals
      and r = "completion (uni ''Bien, merci.'') 3 2 4 2"]
  by (simp add: simple_handler_test_job handler_quiet_test_job completion_def echo_reply_def
      has_key_def usage_counts_def split_test_content split_test_response)


section \<open>What survives a request\<close>

text \<open>
  C7. Request data does not outlive the request. Run on the objects of the job, each
  handler leaves the job as it found it, and with it every object of the job, its
  messages list and each turn: the handlers only read them. The model handler leaves the
  three globals as \<open>load_model\<close> leaves them, whatever the job is, so nothing of the
  request is kept in the process. On the objects each handler gives the same result as on
  the value of the job.
\<close>

theorem handlers_leave_job:
  "snd (snd (handler_run env (g, job))) = job \<and>
   snd (simple_handler_run job) = job \<and>
   reach (snd (snd (handler_run env (g, job)))) p = reach job p \<and>
   reach (snd (simple_handler_run job)) p = reach job p \<and>
   fst (snd (handler_run env (g, job))) = snd (load_model env g) \<and>
   fst (handler_run env (g, job)) = fst (handler env g job) \<and>
   fst (simple_handler_run job) = simple_handler job"
  by (simp add: handler_run_eq simple_handler_run_eq handler_snd)

theorem handlers_leave_job_witness:
  "handler_run quiet_library (initial_globals, test_job) =
     (Inr (completion (uni ''Bien, merci.'') 3 2 4 2), loaded_globals, test_job) \<and>
   simple_handler_run test_job =
     (echo_reply (uni ''Bonjour, comment allez-vous ?''), test_job)"
  using handlers_leave_job [where env = quiet_library and g = initial_globals and job = test_job
      and p = "[]"]
  by (simp add: prod_eq_iff handler_quiet_test_job simple_handler_test_job load_model_quiet)

end
